theory Spec2Isabelle
  imports Main
begin

section \<open>JavaScript values and property reads\<close>

text \<open>
  The values that \<^verbatim>\<open>JSON.parse\<close> can produce, together with \<^verbatim>\<open>undefined\<close>, which a
  property read yields for a missing property. Numbers are never computed on by the hooks;
  they are carried as integers.
\<close>

datatype js_value =
    JUndefined
  | JNull
  | JBool bool
  | JNum int
  | JStr string
  | JArr "js_value list"
  | JObj "(string \<times> js_value) list"

datatype js_error = SyntaxError | TypeError | Error string

text \<open>
  The property read \<^verbatim>\<open>v.k\<close> for the three names the message handler reads
  (\<^verbatim>\<open>type\<close>, \<^verbatim>\<open>data\<close>, \<^verbatim>\<open>frame\<close>): on \<^verbatim>\<open>undefined\<close> and \<^verbatim>\<open>null\<close> it throws a
  TypeError; on an object it gives the property's value, or \<^verbatim>\<open>undefined\<close> when the object
  has none; on a boolean, number, string or array it gives \<^verbatim>\<open>undefined\<close>, since none of the
  three names is a property of those.
\<close>

definition get_prop :: "js_value \<Rightarrow> string \<Rightarrow> js_error + js_value" where
  "get_prop v k =
     (case v of
        JUndefined \<Rightarrow> Inl TypeError
      | JNull \<Rightarrow> Inl TypeError
      | JObj kvs \<Rightarrow> Inr (case map_of kvs k of None \<Rightarrow> JUndefined | Some x \<Rightarrow> x)
      | _ \<Rightarrow> Inr JUndefined)"

section \<open>hooks/useWebSocket.ts\<close>

text \<open>
  A WebSocket object is named by the order of its construction; \<open>sockets\<close> holds the
  \<^verbatim>\<open>readyState\<close> of every socket constructed so far.
\<close>

type_synonym handle = nat

datatype readyState = CONNECTING | OPEN | CLOSING | CLOSED

text \<open>
  The four \<^verbatim>\<open>useState\<close> cells of the hook. \<open>ws\<close> is the value the closures of the last
  render see (the one \<^verbatim>\<open>disconnect\<close> and the effect cleanup read); \<open>ws_pending\<close> is the
  value most recently passed to \<^verbatim>\<open>setWs\<close>, which becomes \<open>ws\<close> at the next render.
  The other three cells are only written by the hook, never read by it.
\<close>

record hook =
  ws :: "handle option"
  ws_pending :: "handle option"
  isConnected :: bool
  droneState :: js_value
  videoFrame :: js_value
  sockets :: "readyState list"

definition initial :: hook where
  "initial = \<lparr>ws = None, ws_pending = None, isConnected = False,
              droneState = JNull, videoFrame = JNull, sockets = []\<rparr>"

definition setWs :: "handle option \<Rightarrow> hook \<Rightarrow> hook" where
  "setWs v st = st\<lparr>ws_pending := v\<rparr>"

definition setIsConnected :: "bool \<Rightarrow> hook \<Rightarrow> hook" where
  "setIsConnected b st = st\<lparr>isConnected := b\<rparr>"

definition setDroneState :: "js_value \<Rightarrow> hook \<Rightarrow> hook" where
  "setDroneState v st = st\<lparr>droneState := v\<rparr>"

definition setVideoFrame :: "js_value \<Rightarrow> hook \<Rightarrow> hook" where
  "setVideoFrame v st = st\<lparr>videoFrame := v\<rparr>"

subsection \<open>The three socket handlers\<close>

definition onopen :: "hook \<Rightarrow> hook" where
  "onopen st = setIsConnected True st"

definition onclose :: "hook \<Rightarrow> hook" where
  "onclose st = setIsConnected False st"

text \<open>
  \<^verbatim>\<open>websocket.onmessage\<close>. \<open>JSON_parse\<close> stands for the built-in \<^verbatim>\<open>JSON.parse\<close>
  (\<open>None\<close> where it throws its SyntaxError). The result is the exception that leaves the
  handler, if any, and the state at that moment: nothing in the handler catches.
\<close>

definition onmessage ::
  "(string \<Rightarrow> js_value option) \<Rightarrow> string \<Rightarrow> hook \<Rightarrow> js_error option \<times> hook" where
  "onmessage JSON_parse event_data st =
     (case JSON_parse event_data of
        None \<Rightarrow> (Some SyntaxError, st)
      | Some data \<Rightarrow>
          (case get_prop data ''type'' of
             Inl e \<Rightarrow> (Some e, st)
           | Inr ty \<Rightarrow>
               if ty = JStr ''state_update'' then
                 (case get_prop data ''data'' of
                    Inl e \<Rightarrow> (Some e, st)
                  | Inr d \<Rightarrow> (None, setDroneState d st))
               else if ty = JStr ''video_frame'' then
                 (case get_prop data ''data'' of
                    Inl e \<Rightarrow> (Some e, st)
                  | Inr d \<Rightarrow>
                      (case get_prop d ''frame'' of
                         Inl e \<Rightarrow> (Some e, st)
                       | Inr f \<Rightarrow> (None, setVideoFrame f st)))
               else (None, st)))"

text \<open>
  One message event: the handler runs; an exception that leaves it goes to the event
  dispatcher and the state stays as the handler left it. A sequence of message events
  is handled one after the other.
\<close>

definition deliver :: "(string \<Rightarrow> js_value option) \<Rightarrow> hook \<Rightarrow> string \<Rightarrow> hook" where
  "deliver JSON_parse st event_data = snd (onmessage JSON_parse event_data st)"

definition receive_all :: "(string \<Rightarrow> js_value option) \<Rightarrow> hook \<Rightarrow> string list \<Rightarrow> hook" where
  "receive_all JSON_parse st msgs = foldl (deliver JSON_parse) st msgs"

subsection \<open>connect, disconnect and the effect cleanup\<close>

text \<open>
  \<^verbatim>\<open>ws.close()\<close> on socket \<open>h\<close>: a socket that is connecting or open starts closing;
  on a socket that is closing or closed the call does nothing. The close event comes later.
\<close>

definition close :: "handle \<Rightarrow> hook \<Rightarrow> hook" where
  "close h st =
     (if h < length (sockets st) \<and> (sockets st ! h = CONNECTING \<or> sockets st ! h = OPEN)
      then st\<lparr>sockets := (sockets st)[h := CLOSING]\<rparr>
      else st)"

text \<open>
  \<^verbatim>\<open>connect\<close> constructs a socket and stores it with \<^verbatim>\<open>setWs\<close>. The three handlers it
  attaches close over the setters only, so every socket carries the same \<open>onopen\<close>,
  \<open>onmessage\<close> and \<open>onclose\<close>; nothing in the hook ever detaches them.
\<close>

definition connect :: "hook \<Rightarrow> hook" where
  "connect st =
     (let websocket = length (sockets st)
      in setWs (Some websocket) (st\<lparr>sockets := sockets st @ [CONNECTING]\<rparr>))"

definition disconnect :: "hook \<Rightarrow> hook" where
  "disconnect st =
     (case ws st of
        Some h \<Rightarrow> setWs None (close h st)
      | None \<Rightarrow> st)"

text \<open>The function returned by the effect: \<^verbatim>\<open>if (ws) ws.close()\<close>.\<close>

definition cleanup :: "hook \<Rightarrow> hook" where
  "cleanup st = (case ws st of Some h \<Rightarrow> close h st | None \<Rightarrow> st)"

text \<open>
  A render after \<^verbatim>\<open>setWs\<close>: the effect depends on \<^verbatim>\<open>[ws]\<close>, so when the value has
  changed the cleanup of the previous render runs, with the previous \<open>ws\<close>, and the
  closures of the new render see the new value.
\<close>

definition render :: "hook \<Rightarrow> hook" where
  "render st =
     (if ws_pending st = ws st then st
      else (cleanup st)\<lparr>ws := ws_pending st\<rparr>)"

subsection \<open>Executions of the hook\<close>

text \<open>
  What can happen to the hook: its two callbacks are called, it renders, or a socket
  event fires. An open event fires on a connecting socket, a message event on an open
  socket, a close event on a socket that is not yet closed; each runs the handler that
  \<^verbatim>\<open>connect\<close> attached.
\<close>

datatype action =
    Connect
  | Disconnect
  | Render
  | OpenEvent handle
  | MessageEvent handle string
  | CloseEvent handle

fun step :: "(string \<Rightarrow> js_value option) \<Rightarrow> hook \<Rightarrow> action \<Rightarrow> hook" where
  "step P st Connect = connect st"
| "step P st Disconnect = disconnect st"
| "step P st Render = render st"
| "step P st (OpenEvent h) =
     (if h < length (sockets st) \<and> sockets st ! h = CONNECTING
      then onopen (st\<lparr>sockets := (sockets st)[h := OPEN]\<rparr>)
      else st)"
| "step P st (MessageEvent h m) =
     (if h < length (sockets st) \<and> sockets st ! h = OPEN
      then deliver P st m
      else st)"
| "step P st (CloseEvent h) =
     (if h < length (sockets st) \<and> sockets st ! h \<noteq> CLOSED
      then onclose (st\<lparr>sockets := (sockets st)[h := CLOSED]\<rparr>)
      else st)"

definition run :: "(string \<Rightarrow> js_value option) \<Rightarrow> hook \<Rightarrow> action list \<Rightarrow> hook" where
  "run P st as = foldl (step P) st as"

text \<open>A socket is live while it is connecting or open.\<close>

definition live :: "handle \<Rightarrow> hook \<Rightarrow> bool" where
  "live h st \<longleftrightarrow> h < length (sockets st) \<and> (sockets st ! h = CONNECTING \<or> sockets st ! h = OPEN)"

subsection \<open>What the specification says a message carries\<close>

text \<open>
  The \<^verbatim>\<open>data\<close> payload of a \<^verbatim>\<open>state_update\<close> message: the message is JSON, its
  \<^verbatim>\<open>type\<close> is the string \<^verbatim>\<open>state_update\<close>, and the payload is its \<^verbatim>\<open>data\<close>.
\<close>

definition state_update_payload :: "(string \<Rightarrow> js_value option) \<Rightarrow> string \<Rightarrow> js_value option" where
  "state_update_payload JSON_parse m =
     (case JSON_parse m of
        None \<Rightarrow> None
      | Some data \<Rightarrow>
          if get_prop data ''type'' = Inr (JStr ''state_update'') then
            (case get_prop data ''data'' of Inl e \<Rightarrow> None | Inr d \<Rightarrow> Some d)
          else None)"

text \<open>
  A message tagged \<^verbatim>\<open>video_frame\<close>: the message is JSON and its \<^verbatim>\<open>type\<close> is the
  string \<^verbatim>\<open>video_frame\<close>, whatever else it holds.
\<close>

definition tagged_video_frame :: "(string \<Rightarrow> js_value option) \<Rightarrow> string \<Rightarrow> bool" where
  "tagged_video_frame JSON_parse m =
     (case JSON_parse m of
        None \<Rightarrow> False
      | Some data \<Rightarrow> get_prop data ''type'' = Inr (JStr ''video_frame''))"

text \<open>
  The frame that can be read from a message: the message is tagged \<^verbatim>\<open>video_frame\<close> and
  the read \<^verbatim>\<open>data.frame\<close> does not throw; its result is \<^verbatim>\<open>undefined\<close> where \<^verbatim>\<open>data\<close>
  has no \<^verbatim>\<open>frame\<close>. From a tagged message whose \<^verbatim>\<open>data\<close> is missing or \<^verbatim>\<open>null\<close> no
  frame can be read.
\<close>

definition readable_frame :: "(string \<Rightarrow> js_value option) \<Rightarrow> string \<Rightarrow> js_value option" where
  "readable_frame JSON_parse m =
     (case JSON_parse m of
        None \<Rightarrow> None
      | Some data \<Rightarrow>
          if get_prop data ''type'' = Inr (JStr ''video_frame'') then
            (case get_prop data ''data'' of
               Inl e \<Rightarrow> None
             | Inr d \<Rightarrow> (case get_prop d ''frame'' of Inl e \<Rightarrow> None | Inr f \<Rightarrow> Some f))
          else None)"

text \<open>The most recent of the values carried by a sequence of messages, \<open>none\<close> if there is none.\<close>

definition most_recent :: "'a \<Rightarrow> (string \<Rightarrow> 'a option) \<Rightarrow> string list \<Rightarrow> 'a" where
  "most_recent none carried msgs =
     (case rev (List.map_filter carried msgs) of [] \<Rightarrow> none | v # _ \<Rightarrow> v)"

text \<open>
  A table of JSON texts and the values \<^verbatim>\<open>JSON.parse\<close> gives for them; every other text
  is taken as one that \<^verbatim>\<open>JSON.parse\<close> rejects. It instantiates \<open>JSON_parse\<close> in the
  examples.
\<close>

definition parse_sample :: "string \<Rightarrow> js_value option" where
  \<open>parse_sample =
     map_of
       [(''null'', JNull),
        (''{}'', JObj []),
        (''{"type":"ping"}'', JObj [(''type'', JStr ''ping'')]),
        (''{"type":"state_update","data":{"battery":87}}'',
           JObj [(''type'', JStr ''state_update''), (''data'', JObj [(''battery'', JNum 87)])]),
        (''{"type":"state_update","data":{"height":120}}'',
           JObj [(''type'', JStr ''state_update''), (''data'', JObj [(''height'', JNum 120)])]),
        (''{"type":"video_frame"}'', JObj [(''type'', JStr ''video_frame'')]),
        (''{"type":"video_frame","data":{"frame":"QUJD"}}'',
           JObj [(''type'', JStr ''video_frame''), (''data'', JObj [(''frame'', JStr ''QUJD'')])]),
        (''{"type":"video_frame","data":{"frame":"REVG"}}'',
           JObj [(''type'', JStr ''video_frame''), (''data'', JObj [(''frame'', JStr ''REVG'')])])]\<close>

text \<open>
  A malformed payload: a text that is not JSON, or JSON in which no \<^verbatim>\<open>type\<close> can be
  found (the read throws, or gives \<^verbatim>\<open>undefined\<close>).
\<close>

definition malformed :: "(string \<Rightarrow> js_value option) \<Rightarrow> string \<Rightarrow> bool" where
  "malformed JSON_parse m =
     (case JSON_parse m of
        None \<Rightarrow> True
      | Some data \<Rightarrow>
          (case get_prop data ''type'' of Inl e \<Rightarrow> True | Inr ty \<Rightarrow> ty = JUndefined))"

section \<open>hooks/useDroneCommands.ts\<close>

record request =
  req_url :: string
  req_method :: string
  req_headers :: "(string \<times> string) list"
  req_body :: string

record response =
  status :: nat
  body_text :: string

definition API_BASE :: string where
  "API_BASE = ''http://localhost:8000''"

text \<open>\<^verbatim>\<open>response.ok\<close>: the status is in the range 200 to 299.\<close>

definition ok :: "response \<Rightarrow> bool" where
  "ok r \<longleftrightarrow> 200 \<le> status r \<and> status r \<le> 299"

text \<open>
  The network is the list of the requests sent so far. \<open>backend\<close> stands for what
  \<^verbatim>\<open>fetch\<close> comes back with for a request, given the requests before it: a response, or
  the error \<^verbatim>\<open>fetch\<close> rejects with when no response arrives. \<open>JSON_stringify\<close> and
  \<open>JSON_parse\<close> stand for the built-ins behind \<^verbatim>\<open>JSON.stringify\<close> and
  \<^verbatim>\<open>response.json()\<close>. The result is how the promise settles (\<open>Inl\<close>: rejected) and
  the network afterwards.
\<close>

type_synonym network = "request list"

definition fetchWithBody ::
  "(string \<Rightarrow> js_value option) \<Rightarrow> (js_value \<Rightarrow> string) \<Rightarrow>
   (network \<Rightarrow> request \<Rightarrow> js_error + response) \<Rightarrow>
   string \<Rightarrow> js_value \<Rightarrow> network \<Rightarrow> (js_error + js_value) \<times> network" where
  "fetchWithBody JSON_parse JSON_stringify backend endpoint body net =
     (let req = \<lparr>req_url = API_BASE @ endpoint,
                 req_method = ''POST'',
                 req_headers = [(''Content-Type'', ''application/json'')],
                 req_body = JSON_stringify body\<rparr>;
          net' = net @ [req]
      in case backend net req of
           Inl e \<Rightarrow> (Inl e, net')
         | Inr response \<Rightarrow>
             if \<not> ok response then (Inl (Error ''Command failed''), net')
             else (case JSON_parse (body_text response) of
                     None \<Rightarrow> (Inl SyntaxError, net')
                   | Some v \<Rightarrow> (Inr v, net')))"

text \<open>The nine request builders; the default body is the empty object.\<close>

type_synonym 'a builder =
  "(string \<Rightarrow> js_value option) \<Rightarrow> (js_value \<Rightarrow> string) \<Rightarrow>
   (network \<Rightarrow> request \<Rightarrow> js_error + response) \<Rightarrow> 'a"

type_synonym settled = "network \<Rightarrow> (js_error + js_value) \<times> network"

definition commands_connect :: "settled builder" where
  "commands_connect P S B = fetchWithBody P S B ''/connect'' (JObj [])"

definition commands_disconnect :: "settled builder" where
  "commands_disconnect P S B = fetchWithBody P S B ''/disconnect'' (JObj [])"

definition takeoff :: "settled builder" where
  "takeoff P S B = fetchWithBody P S B ''/takeoff'' (JObj [])"

definition land :: "settled builder" where
  "land P S B = fetchWithBody P S B ''/land'' (JObj [])"

definition move :: "(string \<Rightarrow> int \<Rightarrow> settled) builder" where
  "move P S B direction distance =
     fetchWithBody P S B ''/move'' (JObj [(''direction'', JStr direction), (''distance'', JNum distance)])"

definition rotate :: "(string \<Rightarrow> int \<Rightarrow> settled) builder" where
  "rotate P S B direction degrees =
     fetchWithBody P S B ''/rotate'' (JObj [(''direction'', JStr direction), (''degrees'', JNum degrees)])"

definition flip :: "(string \<Rightarrow> settled) builder" where
  "flip P S B direction = fetchWithBody P S B ''/flip'' (JObj [(''direction'', JStr direction)])"

definition setSpeed :: "(int \<Rightarrow> settled) builder" where
  "setSpeed P S B speed = fetchWithBody P S B ''/speed'' (JObj [(''speed'', JNum speed)])"

definition toggleTracking :: "(bool \<Rightarrow> settled) builder" where
  "toggleTracking P S B enabled = fetchWithBody P S B ''/track_object'' (JObj [(''enabled'', JBool enabled)])"

text \<open>
  The object \<^verbatim>\<open>useDroneCommands\<close> returns: one entry per operation, each handing its
  arguments to the builder of the same name.
\<close>

datatype command =
    CmdConnect
  | CmdDisconnect
  | CmdTakeoff
  | CmdLand
  | CmdMove string int
  | CmdRotate string int
  | CmdFlip string
  | CmdSetSpeed int
  | CmdToggleTracking bool

fun useDroneCommands ::
  "(string \<Rightarrow> js_value option) \<Rightarrow> (js_value \<Rightarrow> string) \<Rightarrow>
   (network \<Rightarrow> request \<Rightarrow> js_error + response) \<Rightarrow>
   command \<Rightarrow> network \<Rightarrow> (js_error + js_value) \<times> network" where
  "useDroneCommands P S B CmdConnect = commands_connect P S B"
| "useDroneCommands P S B CmdDisconnect = commands_disconnect P S B"
| "useDroneCommands P S B CmdTakeoff = takeoff P S B"
| "useDroneCommands P S B CmdLand = land P S B"
| "useDroneCommands P S B (CmdMove direction distance) = move P S B direction distance"
| "useDroneCommands P S B (CmdRotate direction degrees) = rotate P S B direction degrees"
| "useDroneCommands P S B (CmdFlip direction) = flip P S B direction"
| "useDroneCommands P S B (CmdSetSpeed speed) = setSpeed P S B speed"
| "useDroneCommands P S B (CmdToggleTracking enabled) = toggleTracking P S B enabled"

text \<open>
  A table for \<^verbatim>\<open>JSON.stringify\<close> on the two bodies the examples send, and a backend
  that answers every request with the same response.
\<close>

definition stringify_sample :: "js_value \<Rightarrow> string" where
  \<open>stringify_sample v =
     (if v = JObj [(''direction'', JStr ''forward''), (''distance'', JNum 30)]
      then ''{"direction":"forward","distance":30}''
      else ''{}'')\<close>

definition answers :: "response \<Rightarrow> network \<Rightarrow> request \<Rightarrow> js_error + response" where
  "answers r net req = Inr r"

text \<open>
  An execution in which \<^verbatim>\<open>connect\<close> is called again while the first socket is open:
  the first socket opens, the second \<^verbatim>\<open>connect\<close> and its render follow, the second
  socket opens, and then the close event of the first socket arrives.
\<close>

definition reopen_trace :: "action list" where
  "reopen_trace = [Connect, Render, OpenEvent 0, Connect, Render, OpenEvent 1, CloseEvent 0]"

section \<open>Properties of the message handler\<close>

lemma droneState_deliver:
  "droneState (deliver P st m) =
     (case state_update_payload P m of None \<Rightarrow> droneState st | Some v \<Rightarrow> v)"
  by (simp add: deliver_def onmessage_def state_update_payload_def setDroneState_def
      setVideoFrame_def split: option.splits sum.splits)

lemma videoFrame_deliver:
  "videoFrame (deliver P st m) =
     (case readable_frame P m of None \<Rightarrow> videoFrame st | Some v \<Rightarrow> v)"
  by (simp add: deliver_def onmessage_def readable_frame_def setDroneState_def
      setVideoFrame_def split: option.splits sum.splits)

lemma receive_all_snoc:
  "receive_all P st (ms @ [m]) = deliver P (receive_all P st ms) m"
  by (simp add: receive_all_def)

lemma most_recent_Nil: "most_recent none carried [] = none"
  by (simp add: most_recent_def List.map_filter_def)

lemma most_recent_snoc:
  "most_recent none carried (ms @ [m]) =
     (case carried m of None \<Rightarrow> most_recent none carried ms | Some v \<Rightarrow> v)"
  by (simp add: most_recent_def List.map_filter_def split: option.splits)

lemma droneState_receive_all:
  "droneState (receive_all P st ms) = most_recent (droneState st) (state_update_payload P) ms"
proof (induction ms rule: rev_induct)
  case Nil
  show ?case by (simp add: receive_all_def most_recent_Nil)
next
  case (snoc m ms)
  then show ?case
    by (simp add: receive_all_snoc droneState_deliver most_recent_snoc split: option.splits)
qed

lemma videoFrame_receive_all:
  "videoFrame (receive_all P st ms) = most_recent (videoFrame st) (readable_frame P) ms"
proof (induction ms rule: rev_induct)
  case Nil
  show ?case by (simp add: receive_all_def most_recent_Nil)
next
  case (snoc m ms)
  then show ?case
    by (simp add: receive_all_snoc videoFrame_deliver most_recent_snoc split: option.splits)
qed

lemma receive_all_example:
  \<open>droneState
     (receive_all parse_sample initial
        [''{"type":"state_update","data":{"battery":87}}'',
         ''{"type":"video_frame","data":{"frame":"QUJD"}}'',
         ''not json'',
         ''{"type":"state_update","data":{"height":120}}'',
         ''{"type":"video_frame","data":{"frame":"REVG"}}'',
         ''{"type":"ping"}'']) = JObj [(''height'', JNum 120)] \<and>
   videoFrame
     (receive_all parse_sample initial
        [''{"type":"state_update","data":{"battery":87}}'',
         ''{"type":"video_frame","data":{"frame":"QUJD"}}'',
         ''not json'',
         ''{"type":"state_update","data":{"height":120}}'',
         ''{"type":"video_frame","data":{"frame":"REVG"}}'',
         ''{"type":"ping"}'']) = JStr ''REVG''\<close>
  by (simp add: receive_all_def deliver_def onmessage_def parse_sample_def get_prop_def
      setDroneState_def setVideoFrame_def initial_def)

lemma snd_onmessage_malformed: "malformed P m \<Longrightarrow> snd (onmessage P m st) = st"
  by (simp add: malformed_def onmessage_def split: option.splits sum.splits)

lemma deliver_frame:
  "isConnected (deliver P st m) = isConnected st \<and> ws (deliver P st m) = ws st \<and>
   ws_pending (deliver P st m) = ws_pending st \<and> sockets (deliver P st m) = sockets st"
  by (simp add: deliver_def onmessage_def setDroneState_def setVideoFrame_def
      split: option.splits sum.splits)

text \<open>
  C1. After any sequence of inbound messages, \<open>droneState\<close> is the \<^verbatim>\<open>data\<close> payload of the
  most recent \<^verbatim>\<open>state_update\<close> message of the sequence, whatever the snapshot was before
  and whatever the other messages were; when the sequence has no such message it is the
  snapshot the hook started with, which is \<^verbatim>\<open>null\<close>.
\<close>

theorem latest_snapshot:
  "droneState (receive_all P st ms) = most_recent (droneState st) (state_update_payload P) ms \<and>
   droneState (receive_all P initial ms) = most_recent JNull (state_update_payload P) ms"
  by (simp add: droneState_receive_all initial_def)

text \<open>
  C2, as the code has it. After any sequence of inbound messages, \<open>videoFrame\<close> is the
  result of reading \<^verbatim>\<open>data.frame\<close> in the most recent message tagged \<^verbatim>\<open>video_frame\<close>
  from which it can be read (\<^verbatim>\<open>undefined\<close> where \<^verbatim>\<open>data\<close> has no \<^verbatim>\<open>frame\<close>), and
  \<^verbatim>\<open>null\<close> from the initial state when there is none: one slot, no queue. A tagged
  message from which it can be read replaces the frame. A tagged message whose
  \<^verbatim>\<open>data\<close> is missing or \<^verbatim>\<open>null\<close> makes the handler throw a TypeError and leaves the
  frame that was there.
\<close>

theorem latest_readable_frame:
  "videoFrame (receive_all P st ms) = most_recent (videoFrame st) (readable_frame P) ms \<and>
   videoFrame (receive_all P initial ms) = most_recent JNull (readable_frame P) ms \<and>
   (\<forall>f. readable_frame P m = Some f \<longrightarrow>
      tagged_video_frame P m \<and> onmessage P m st = (None, setVideoFrame f st)) \<and>
   (tagged_video_frame P m \<and> readable_frame P m = None \<longrightarrow>
      onmessage P m st = (Some TypeError, st) \<and>
      (\<exists>data. P m = Some data \<and>
         (get_prop data ''data'' = Inr JUndefined \<or> get_prop data ''data'' = Inr JNull)))"
  apply (simp add: videoFrame_receive_all initial_def)
  apply (auto simp add: tagged_video_frame_def readable_frame_def onmessage_def get_prop_def
      split: option.splits sum.splits js_value.splits if_splits)
  done

theorem latest_readable_frame_witness:
  \<open>readable_frame parse_sample ''{"type":"video_frame","data":{"frame":"QUJD"}}'' =
     Some (JStr ''QUJD'') \<and>
   onmessage parse_sample ''{"type":"video_frame","data":{"frame":"QUJD"}}'' initial =
     (None, setVideoFrame (JStr ''QUJD'') initial) \<and>
   tagged_video_frame parse_sample ''{"type":"video_frame"}'' \<and>
   readable_frame parse_sample ''{"type":"video_frame"}'' = None \<and>
   onmessage parse_sample ''{"type":"video_frame"}'' initial = (Some TypeError, initial)\<close>
proof -
  have a: \<open>readable_frame parse_sample ''{"type":"video_frame","data":{"frame":"QUJD"}}'' =
      Some (JStr ''QUJD'')\<close>
    by (simp add: readable_frame_def parse_sample_def get_prop_def)
  have b: \<open>tagged_video_frame parse_sample ''{"type":"video_frame"}'' \<and>
      readable_frame parse_sample ''{"type":"video_frame"}'' = None\<close>
    by (simp add: tagged_video_frame_def readable_frame_def parse_sample_def get_prop_def)
  from latest_readable_frame
         [where P = parse_sample and st = initial and ms = "[]"
            and m = \<open>''{"type":"video_frame","data":{"frame":"QUJD"}}''\<close>]
       latest_readable_frame
         [where P = parse_sample and st = initial and ms = "[]"
            and m = \<open>''{"type":"video_frame"}''\<close>] a b
  show ?thesis
    by simp
qed

text \<open>
  C2 as stated fails: the last message of the sequence below is tagged \<^verbatim>\<open>video_frame\<close>
  and has no \<^verbatim>\<open>data\<close>; after it \<open>videoFrame\<close> is still the frame of the message before.
\<close>

theorem earlier_frame_stays_observable:
  \<open>tagged_video_frame parse_sample ''{"type":"video_frame"}'' \<and>
   videoFrame
     (receive_all parse_sample initial
        [''{"type":"video_frame","data":{"frame":"QUJD"}}'', ''{"type":"video_frame"}'']) =
     JStr ''QUJD''\<close>
  by (simp add: tagged_video_frame_def receive_all_def deliver_def onmessage_def parse_sample_def
      get_prop_def setVideoFrame_def initial_def)

text \<open>
  C3. A message that is JSON and whose \<^verbatim>\<open>type\<close> is neither \<^verbatim>\<open>state_update\<close> nor
  \<^verbatim>\<open>video_frame\<close> is ignored: the handler returns without an exception and the whole
  state of the hook, snapshot and frame included, is as before.
\<close>

theorem unrecognized_type_ignored:
  assumes "P m = Some data"
    and "get_prop data ''type'' = Inr ty"
    and "ty \<noteq> JStr ''state_update''"
    and "ty \<noteq> JStr ''video_frame''"
  shows "onmessage P m st = (None, st)"
  using assms by (simp add: onmessage_def)

theorem unrecognized_type_ignored_witness:
  \<open>parse_sample ''{"type":"ping"}'' = Some (JObj [(''type'', JStr ''ping'')]) \<and>
   get_prop (JObj [(''type'', JStr ''ping'')]) ''type'' = Inr (JStr ''ping'') \<and>
   onmessage parse_sample ''{"type":"ping"}'' initial = (None, initial)\<close>
proof -
  have a: \<open>parse_sample ''{"type":"ping"}'' = Some (JObj [(''type'', JStr ''ping'')])\<close>
    by (simp add: parse_sample_def)
  have b: "get_prop (JObj [(''type'', JStr ''ping'')]) ''type'' = Inr (JStr ''ping'')"
    by (simp add: get_prop_def)
  have c: "JStr ''ping'' \<noteq> JStr ''state_update''" and d: "JStr ''ping'' \<noteq> JStr ''video_frame''"
    by simp_all
  from unrecognized_type_ignored
         [of parse_sample \<open>''{"type":"ping"}''\<close> "JObj [(''type'', JStr ''ping'')]" "JStr ''ping''" initial,
          OF a b c d] a b
  show ?thesis
    by simp
qed

text \<open>
  C4, as the code has it. A malformed payload leaves the whole state of the hook
  untouched and the messages after it are handled as if it had not come. The handler
  does not catch anything: for a text that is not JSON the SyntaxError of
  \<^verbatim>\<open>JSON.parse\<close> leaves the handler, for JSON \<^verbatim>\<open>null\<close> the TypeError of reading
  \<^verbatim>\<open>data.type\<close> does; only for JSON that merely lacks a \<^verbatim>\<open>type\<close> does the handler
  return normally.
\<close>

theorem malformed_leaves_state:
  assumes "malformed P m"
  shows "snd (onmessage P m st) = st \<and>
         fst (onmessage P m st) =
           (case P m of
              None \<Rightarrow> Some SyntaxError
            | Some data \<Rightarrow> (case get_prop data ''type'' of Inl e \<Rightarrow> Some e | Inr ty \<Rightarrow> None)) \<and>
         receive_all P st (ms @ m # ms') = receive_all P st (ms @ ms')"
proof -
  have untouched: "snd (onmessage P m s) = s" for s
    using assms by (rule snd_onmessage_malformed)
  have outcome: "fst (onmessage P m st) =
      (case P m of
         None \<Rightarrow> Some SyntaxError
       | Some data \<Rightarrow> (case get_prop data ''type'' of Inl e \<Rightarrow> Some e | Inr ty \<Rightarrow> None))"
    using assms by (simp add: malformed_def onmessage_def split: option.splits sum.splits)
  have "deliver P (receive_all P st ms) m = receive_all P st ms"
    by (simp add: deliver_def untouched)
  then have "receive_all P st (ms @ m # ms') = receive_all P st (ms @ ms')"
    by (simp add: receive_all_def)
  with untouched outcome show ?thesis by simp
qed

theorem malformed_leaves_state_witness:
  "malformed parse_sample ''not json'' \<and>
   snd (onmessage parse_sample ''not json'' initial) = initial \<and>
   malformed parse_sample ''null'' \<and>
   fst (onmessage parse_sample ''null'' initial) = Some TypeError \<and>
   malformed parse_sample ''{}'' \<and>
   fst (onmessage parse_sample ''{}'' initial) = None"
proof -
  have a: "malformed parse_sample ''not json''"
    by (simp add: malformed_def parse_sample_def)
  have b: "malformed parse_sample ''null''"
    by (simp add: malformed_def parse_sample_def get_prop_def)
  have c: "malformed parse_sample ''{}''"
    by (simp add: malformed_def parse_sample_def get_prop_def)
  from malformed_leaves_state [OF a, of initial "[]" "[]"]
    malformed_leaves_state [OF b, of initial "[]" "[]"]
    malformed_leaves_state [OF c, of initial "[]" "[]"] a b c
  show ?thesis
    by (simp add: parse_sample_def get_prop_def)
qed

text \<open>
  C4 as stated fails: on a payload that is not JSON the handler does not return; the
  SyntaxError leaves it, to whoever dispatched the event.
\<close>

theorem malformed_not_swallowed:
  "malformed parse_sample ''not json'' \<and>
   onmessage parse_sample ''not json'' initial = (Some SyntaxError, initial)"
  by (simp add: malformed_def onmessage_def parse_sample_def)

text \<open>
  C10. A message tagged \<^verbatim>\<open>state_update\<close> leaves \<open>videoFrame\<close> and \<open>isConnected\<close> as they
  were, and a message tagged \<^verbatim>\<open>video_frame\<close> leaves \<open>droneState\<close> and \<open>isConnected\<close> as
  they were.
\<close>

theorem tags_write_disjoint_slots:
  assumes "P m = Some data"
  shows "(get_prop data ''type'' = Inr (JStr ''state_update'') \<longrightarrow>
            videoFrame (deliver P st m) = videoFrame st \<and>
            isConnected (deliver P st m) = isConnected st) \<and>
         (get_prop data ''type'' = Inr (JStr ''video_frame'') \<longrightarrow>
            droneState (deliver P st m) = droneState st \<and>
            isConnected (deliver P st m) = isConnected st)"
  using assms
  by (simp add: deliver_def onmessage_def setDroneState_def setVideoFrame_def
      split: sum.splits)

theorem tags_write_disjoint_slots_witness:
  \<open>videoFrame (deliver parse_sample initial ''{"type":"state_update","data":{"battery":87}}'') =
     videoFrame initial \<and>
   isConnected (deliver parse_sample initial ''{"type":"state_update","data":{"battery":87}}'') =
     isConnected initial \<and>
   droneState (deliver parse_sample initial ''{"type":"video_frame","data":{"frame":"QUJD"}}'') =
     droneState initial \<and>
   isConnected (deliver parse_sample initial ''{"type":"video_frame","data":{"frame":"QUJD"}}'') =
     isConnected initial\<close>
proof -
  have a: \<open>parse_sample ''{"type":"state_update","data":{"battery":87}}'' =
      Some (JObj [(''type'', JStr ''state_update''), (''data'', JObj [(''battery'', JNum 87)])])\<close>
    by (simp add: parse_sample_def)
  have b: \<open>parse_sample ''{"type":"video_frame","data":{"frame":"QUJD"}}'' =
      Some (JObj [(''type'', JStr ''video_frame''), (''data'', JObj [(''frame'', JStr ''QUJD'')])])\<close>
    by (simp add: parse_sample_def)
  from tags_write_disjoint_slots [where P = parse_sample and st = initial, OF a]
    tags_write_disjoint_slots [where P = parse_sample and st = initial, OF b]
  show ?thesis
    by (simp add: get_prop_def)
qed

section \<open>Properties of connect, disconnect and the socket events\<close>

text \<open>
  C8. \<open>isConnected\<close> is a boolean, and one step of the hook changes it only in two ways:
  an open event fires on a connecting socket and it is true afterwards, or a close event
  fires on a socket that was not closed and it is false afterwards. Calls of
  \<^verbatim>\<open>connect\<close> and \<^verbatim>\<open>disconnect\<close>, renders and message events leave it as it was.
\<close>

theorem connection_state_changes:
  assumes "isConnected (step P st a) \<noteq> isConnected st"
  shows "(\<exists>h. a = OpenEvent h \<and> h < length (sockets st) \<and> sockets st ! h = CONNECTING \<and>
              isConnected (step P st a)) \<or>
         (\<exists>h. a = CloseEvent h \<and> h < length (sockets st) \<and> sockets st ! h \<noteq> CLOSED \<and>
              \<not> isConnected (step P st a))"
proof (cases a)
  case Connect
  with assms show ?thesis by (simp add: connect_def setWs_def Let_def)
next
  case Disconnect
  with assms show ?thesis
    by (simp add: disconnect_def setWs_def close_def split: option.splits if_splits)
next
  case Render
  with assms show ?thesis
    by (simp add: render_def cleanup_def close_def split: option.splits if_splits)
next
  case (OpenEvent h)
  with assms show ?thesis
    by (simp add: onopen_def setIsConnected_def split: if_splits)
next
  case (MessageEvent h m)
  with assms show ?thesis
    by (simp add: deliver_frame split: if_splits)
next
  case (CloseEvent h)
  with assms show ?thesis
    by (simp add: onclose_def setIsConnected_def split: if_splits)
qed

theorem connection_state_changes_witness:
  "isConnected (step parse_sample (connect initial) (OpenEvent 0)) \<noteq> isConnected (connect initial) \<and>
   sockets (connect initial) ! 0 = CONNECTING \<and>
   isConnected (step parse_sample (connect initial) (OpenEvent 0))"
proof -
  have a: "isConnected (step parse_sample (connect initial) (OpenEvent 0)) \<noteq> isConnected (connect initial)"
    by (simp add: connect_def initial_def setWs_def onopen_def setIsConnected_def)
  from connection_state_changes [OF a] a show ?thesis
    by auto
qed

text \<open>
  C9, as the code has it. \<^verbatim>\<open>disconnect\<close> acts on the \<open>ws\<close> its closure holds, the value
  of the last render. When that is a socket it calls \<^verbatim>\<open>close()\<close> on it and clears the
  handle: a live socket is closing afterwards, no other socket is touched, and the next
  render has \<open>ws\<close> empty (its cleanup closes nothing more); on a socket that was no
  longer live only the handle is cleared. When that is empty \<^verbatim>\<open>disconnect\<close> changes
  nothing, also when \<^verbatim>\<open>connect\<close> has stored a socket since the last render: that socket
  is not closed and the next render owns it.
\<close>

theorem disconnect_closes_or_noop:
  "(ws st = Some h \<and> live h st \<longrightarrow>
      sockets (disconnect st) ! h = CLOSING \<and>
      (\<forall>k. k \<noteq> h \<longrightarrow> sockets (disconnect st) ! k = sockets st ! k) \<and>
      length (sockets (disconnect st)) = length (sockets st) \<and>
      ws_pending (disconnect st) = None \<and>
      ws (render (disconnect st)) = None \<and>
      sockets (render (disconnect st)) = sockets (disconnect st)) \<and>
   (ws st = Some h \<and> \<not> live h st \<longrightarrow>
      sockets (disconnect st) = sockets st \<and>
      ws_pending (disconnect st) = None \<and>
      ws (render (disconnect st)) = None) \<and>
   (ws st = None \<longrightarrow> disconnect st = st) \<and>
   (ws st = None \<and> ws_pending st = Some h \<longrightarrow>
      ws (render (disconnect st)) = Some h \<and>
      sockets (render (disconnect st)) = sockets st)"
  by (auto simp add: disconnect_def live_def close_def setWs_def render_def cleanup_def)

theorem disconnect_closes_or_noop_witness:
  "ws (render (connect initial)) = Some 0 \<and> live 0 (render (connect initial)) \<and>
   sockets (disconnect (render (connect initial))) ! 0 = CLOSING \<and>
   ws (render (disconnect (render (connect initial)))) = None \<and>
   ws (step parse_sample (render (connect initial)) (CloseEvent 0)) = Some 0 \<and>
   \<not> live 0 (step parse_sample (render (connect initial)) (CloseEvent 0)) \<and>
   ws_pending (disconnect (step parse_sample (render (connect initial)) (CloseEvent 0))) = None \<and>
   ws initial = None \<and> disconnect initial = initial \<and>
   ws (connect initial) = None \<and> ws_pending (connect initial) = Some 0 \<and>
   ws (render (disconnect (connect initial))) = Some 0"
proof -
  have a: "ws (render (connect initial)) = Some 0 \<and> live 0 (render (connect initial))"
    by (simp add: render_def connect_def initial_def setWs_def cleanup_def live_def)
  have b: "ws (step parse_sample (render (connect initial)) (CloseEvent 0)) = Some 0 \<and>
           \<not> live 0 (step parse_sample (render (connect initial)) (CloseEvent 0))"
    by (simp add: render_def connect_def initial_def setWs_def cleanup_def live_def
        onclose_def setIsConnected_def)
  have c: "ws initial = None"
    by (simp add: initial_def)
  have d: "ws (connect initial) = None \<and> ws_pending (connect initial) = Some 0"
    by (simp add: connect_def initial_def setWs_def)
  from disconnect_closes_or_noop [of "render (connect initial)" 0]
    disconnect_closes_or_noop [of "step parse_sample (render (connect initial)) (CloseEvent 0)" 0]
    disconnect_closes_or_noop [of initial 0]
    disconnect_closes_or_noop [of "connect initial" 0] a b c d
  show ?thesis
    by simp
qed

text \<open>
  C9 as stated fails: right after \<^verbatim>\<open>connect\<close>, before the render, socket 0 is live and
  is the socket \<^verbatim>\<open>setWs\<close> has stored, and \<^verbatim>\<open>disconnect\<close> does nothing; after the
  render the hook owns socket 0, still live.
\<close>

theorem disconnect_before_render:
  "live 0 (connect initial) \<and> ws_pending (connect initial) = Some 0 \<and>
   disconnect (connect initial) = connect initial \<and>
   ws (render (disconnect (connect initial))) = Some 0 \<and>
   live 0 (render (disconnect (connect initial)))"
  by (simp add: live_def connect_def disconnect_def render_def cleanup_def setWs_def initial_def)

text \<open>
  C7, as the code has it. When \<^verbatim>\<open>connect\<close> is called while the hook owns an open socket,
  the render that follows leaves exactly one owned handle, the new socket, which is
  connecting; the cleanup of the previous render has called \<^verbatim>\<open>close()\<close> on the previous
  socket, which is closing, and no other socket is touched. The handlers of the previous
  socket stay attached: its close event still sets \<open>isConnected\<close> to false.
\<close>

theorem connect_replaces_owned_socket:
  assumes "ws st = Some old" and "ws_pending st = Some old"
    and "old < length (sockets st)" and "sockets st ! old = OPEN"
  shows "ws (render (connect st)) = Some (length (sockets st)) \<and>
         ws_pending (render (connect st)) = Some (length (sockets st)) \<and>
         sockets (render (connect st)) ! length (sockets st) = CONNECTING \<and>
         sockets (render (connect st)) ! old = CLOSING \<and>
         (\<forall>k < length (sockets st). k \<noteq> old \<longrightarrow> sockets (render (connect st)) ! k = sockets st ! k) \<and>
         isConnected (render (connect st)) = isConnected st \<and>
         \<not> isConnected (step P (render (connect st)) (CloseEvent old))"
  using assms
  by (auto simp add: connect_def render_def cleanup_def close_def setWs_def Let_def nth_append
      onclose_def setIsConnected_def)

theorem connect_replaces_owned_socket_witness:
  "ws (step parse_sample (render (connect initial)) (OpenEvent 0)) = Some 0 \<and>
   sockets (step parse_sample (render (connect initial)) (OpenEvent 0)) ! 0 = OPEN \<and>
   ws (render (connect (step parse_sample (render (connect initial)) (OpenEvent 0)))) = Some 1 \<and>
   sockets (render (connect (step parse_sample (render (connect initial)) (OpenEvent 0)))) ! 0 = CLOSING"
proof -
  have a: "ws (step parse_sample (render (connect initial)) (OpenEvent 0)) = Some 0"
    and b: "ws_pending (step parse_sample (render (connect initial)) (OpenEvent 0)) = Some 0"
    and c: "0 < length (sockets (step parse_sample (render (connect initial)) (OpenEvent 0)))"
    and d: "sockets (step parse_sample (render (connect initial)) (OpenEvent 0)) ! 0 = OPEN"
    and e: "length (sockets (step parse_sample (render (connect initial)) (OpenEvent 0))) = 1"
    by (simp_all add: render_def connect_def initial_def setWs_def cleanup_def
        onopen_def setIsConnected_def)
  from connect_replaces_owned_socket [OF a b c d, of parse_sample] a d e
  show ?thesis
    by simp
qed

text \<open>
  C7 as stated fails: after the second \<^verbatim>\<open>connect\<close> the published state is not driven by
  the new connection only. At the end of \<open>reopen_trace\<close> the hook owns socket 1, which is
  open, and \<open>isConnected\<close> is false, set by the close event of socket 0.
\<close>

theorem old_socket_still_drives_state:
  "ws (run parse_sample initial reopen_trace) = Some 1 \<and>
   sockets (run parse_sample initial reopen_trace) = [CLOSED, OPEN] \<and>
   isConnected (run parse_sample initial reopen_trace) = False"
  by (simp add: run_def reopen_trace_def initial_def connect_def render_def cleanup_def close_def
      setWs_def onopen_def onclose_def setIsConnected_def Let_def)

section \<open>Properties of the command dispatcher\<close>

lemma fetchWithBody_outcome:
  assumes "\<And>req. B net req = Inr r"
  shows "fst (fetchWithBody P S B endpoint body net) =
           (if ok r then (case P (body_text r) of None \<Rightarrow> Inl SyntaxError | Some v \<Rightarrow> Inr v)
            else Inl (Error ''Command failed''))"
  using assms by (simp add: fetchWithBody_def Let_def split: option.splits)

lemma fetchWithBody_network:
  "snd (fetchWithBody P S B endpoint body net) =
     net @ [\<lparr>req_url = API_BASE @ endpoint, req_method = ''POST'',
             req_headers = [(''Content-Type'', ''application/json'')],
             req_body = S body\<rparr>]"
  by (simp add: fetchWithBody_def Let_def split: sum.splits option.splits)

lemmas command_defs =
  commands_connect_def commands_disconnect_def takeoff_def land_def move_def rotate_def
  flip_def setSpeed_def toggleTracking_def

text \<open>
  C5, as the code has it. For each of the nine operations, when \<^verbatim>\<open>fetch\<close> comes back
  with a response: the operation fails with the one error \<^verbatim>\<open>Error('Command failed')\<close>,
  which carries nothing of the response, exactly when the status is not 2xx; it resolves
  exactly when the status is 2xx and the body is JSON text, and then with the parsed
  body; a 2xx response whose body is not JSON text rejects with the SyntaxError of
  \<^verbatim>\<open>response.json()\<close>. In every case exactly one request, a POST, has been sent.
\<close>

theorem command_outcome:
  assumes "\<And>req. B net req = Inr r"
  shows "fst (useDroneCommands P S B c net) =
           (if ok r then (case P (body_text r) of None \<Rightarrow> Inl SyntaxError | Some v \<Rightarrow> Inr v)
            else Inl (Error ''Command failed'')) \<and>
         (fst (useDroneCommands P S B c net) = Inl (Error ''Command failed'') \<longleftrightarrow> \<not> ok r) \<and>
         ((\<exists>v. fst (useDroneCommands P S B c net) = Inr v) \<longleftrightarrow> ok r \<and> P (body_text r) \<noteq> None) \<and>
         (\<exists>req. snd (useDroneCommands P S B c net) = net @ [req] \<and> req_method req = ''POST'')"
proof -
  have out: "fst (useDroneCommands P S B c net) =
           (if ok r then (case P (body_text r) of None \<Rightarrow> Inl SyntaxError | Some v \<Rightarrow> Inr v)
            else Inl (Error ''Command failed''))"
    by (cases c)
      (simp_all add: command_defs fetchWithBody_outcome [where B = B and net = net and r = r, OF assms])
  have net: "\<exists>req. snd (useDroneCommands P S B c net) = net @ [req] \<and> req_method req = ''POST''"
    by (cases c) (simp_all add: command_defs fetchWithBody_network)
  from out net show ?thesis
    by (auto split: option.splits)
qed

theorem command_outcome_witness:
  "fst (useDroneCommands parse_sample stringify_sample
          (answers \<lparr>status = 200, body_text = ''{}''\<rparr>) CmdTakeoff []) = Inr (JObj []) \<and>
   fst (useDroneCommands parse_sample stringify_sample
          (answers \<lparr>status = 500, body_text = ''{}''\<rparr>) CmdTakeoff []) = Inl (Error ''Command failed'')"
proof -
  have a: "answers \<lparr>status = 200, body_text = ''{}''\<rparr> [] req = Inr \<lparr>status = 200, body_text = ''{}''\<rparr>" for req
    by (simp add: answers_def)
  have b: "answers \<lparr>status = 500, body_text = ''{}''\<rparr> [] req = Inr \<lparr>status = 500, body_text = ''{}''\<rparr>" for req
    by (simp add: answers_def)
  from command_outcome [where B = "answers \<lparr>status = 200, body_text = ''{}''\<rparr>" and net = "[]"
        and r = "\<lparr>status = 200, body_text = ''{}''\<rparr>" and P = parse_sample
        and S = stringify_sample and c = CmdTakeoff, OF a]
    command_outcome [where B = "answers \<lparr>status = 500, body_text = ''{}''\<rparr>" and net = "[]"
        and r = "\<lparr>status = 500, body_text = ''{}''\<rparr>" and P = parse_sample
        and S = stringify_sample and c = CmdTakeoff, OF b]
  show ?thesis
    by (simp add: ok_def parse_sample_def)
qed

text \<open>
  C5 as stated fails: a response with status 200 whose body is the text \<^verbatim>\<open>OK\<close> has a
  successful status, and the operation does not resolve; it rejects with a SyntaxError.
\<close>

theorem success_status_without_json_body:
  "ok \<lparr>status = 200, body_text = ''OK''\<rparr> \<and>
   fst (useDroneCommands parse_sample stringify_sample
          (answers \<lparr>status = 200, body_text = ''OK''\<rparr>) CmdTakeoff []) = Inl SyntaxError"
  by (simp add: ok_def takeoff_def fetchWithBody_def answers_def parse_sample_def Let_def)

text \<open>
  C6. Whatever the backend answers, \<^verbatim>\<open>move(direction, distance)\<close> adds exactly one
  request to the network: a POST to \<^verbatim>\<open>/move\<close> on the backend, with the JSON text of
  \<^verbatim>\<open>{direction, distance}\<close> as its body; in particular \<^verbatim>\<open>move("forward", 30)\<close> sends
  \<^verbatim>\<open>{direction: "forward", distance: 30}\<close>. Nothing is sent again after a failure.
\<close>

theorem move_issues_one_post:
  "snd (move P S B direction distance net) =
     net @ [\<lparr>req_url = ''http://localhost:8000/move'', req_method = ''POST'',
             req_headers = [(''Content-Type'', ''application/json'')],
             req_body = S (JObj [(''direction'', JStr direction), (''distance'', JNum distance)])\<rparr>] \<and>
   snd (move P S B ''forward'' 30 net) =
     net @ [\<lparr>req_url = ''http://localhost:8000/move'', req_method = ''POST'',
             req_headers = [(''Content-Type'', ''application/json'')],
             req_body = S (JObj [(''direction'', JStr ''forward''), (''distance'', JNum 30)])\<rparr>] \<and>
   useDroneCommands P S B (CmdMove direction distance) net = move P S B direction distance net"
  by (simp add: move_def fetchWithBody_network API_BASE_def)

end
